theory Spec2Isabelle
  imports Main "HOL-Library.Sublist"
begin

section \<open>Values, errors and parsers\<close>

text \<open>
  The raw results handed to a parser are JSON-like JavaScript values. An object is an
  association list with one entry per own enumerable property, in the order the
  properties were set (JavaScript enumerates integer-like names first; no statement below
  depends on the order of an object's properties). Numbers are only carried around by the
  projection code, never computed with.
\<close>

datatype jsvalue =
    JUndefined
  | JNull
  | JBoolean bool
  | JNumber int
  | JString string
  | JArray "jsvalue list"
  | JObject "(string \<times> jsvalue) list"

text \<open>
  A \<^verbatim>\<open>throw\<close> is a value: the class of the thrown error and its message.
  \<open>Thrown\<close> stands for an error of any other class raised by a caller-supplied parser.
\<close>

datatype error =
    Error string
  | TypeError string
  | Thrown string string

text \<open>\<^verbatim>\<open>ParserFunction\<close>: a function of the raw value that returns or throws.\<close>

type_synonym ParserFunction = "jsvalue \<Rightarrow> error + jsvalue"

section \<open>The builder node\<close>

text \<open>
  \<^verbatim>\<open>GroqBuilderOptions\<close>. The class in \<^verbatim>\<open>commands/project.ts\<close> has \<open>indent\<close> only; the newer
  \<open>project\<close> also reads \<open>validationRequired\<close>.
\<close>

record GroqBuilderOptions =
  indent :: string
  validationRequired :: bool

text \<open>
  \<^verbatim>\<open>GroqBuilder\<close>: the three read-only fields of \<^verbatim>\<open>this.internal\<close>; a null parser is \<open>None\<close>.
\<close>

record GroqBuilder =
  query :: string
  parser :: "ParserFunction option"
  options :: GroqBuilderOptions

text \<open>\<^verbatim>\<open>this.indentation\<close>, destructured by \<open>project\<close> into \<open>newLine\<close> and \<open>space\<close>.\<close>

record indentation =
  newLine :: string
  space :: string

section \<open>Field configurations\<close>

text \<open>
  The \<^verbatim>\<open>value: unknown\<close> that \<open>normalizeProjectionField\<close> inspects, one constructor per kind
  of run-time value it can tell apart. An array is taken at the type the source casts it
  to, \<^verbatim>\<open>[string, Parser]\<close>: a path and a second element that is handed to
  \<open>normalizeValidationFunction\<close> as it is.
\<close>

datatype fieldConfig =
    BuilderValue GroqBuilder
  | StringValue string
  | BooleanValue bool
  | ArrayValue string fieldConfig
  | FunctionValue ParserFunction
  | ParserObject ParserFunction
  | PlainObject "(string \<times> jsvalue) list"
  | NumberValue int
  | NullValue
  | UndefinedValue
  | SymbolValue string
  | BigIntValue int

text \<open>JavaScript's \<^verbatim>\<open>typeof\<close> on such a value.\<close>

fun typeof :: "fieldConfig \<Rightarrow> string" where
  "typeof (BuilderValue b) = ''object''"
| "typeof (StringValue s) = ''string''"
| "typeof (BooleanValue b) = ''boolean''"
| "typeof (ArrayValue p v) = ''object''"
| "typeof (FunctionValue f) = ''function''"
| "typeof (ParserObject f) = ''object''"
| "typeof (PlainObject kvs) = ''object''"
| "typeof (NumberValue n) = ''number''"
| "typeof NullValue = ''object''"
| "typeof UndefinedValue = ''undefined''"
| "typeof (SymbolValue s) = ''symbol''"
| "typeof (BigIntValue n) = ''bigint''"

text \<open>
  \<^verbatim>\<open>NormalizedProjectionField\<close>, with fields \<^verbatim>\<open>key\<close>, \<^verbatim>\<open>query\<close> and \<^verbatim>\<open>parser\<close>; the last two are
  prefixed here because the builder node owns the plain names.
\<close>

record NormalizedProjectionField =
  key :: string
  fquery :: string
  fparser :: "ParserFunction option"

text \<open>
  The projection map, as \<^verbatim>\<open>Object.keys\<close> enumerates it: one entry per key, in iteration
  order. The argument of \<open>project\<close> is the map or a function of \<^verbatim>\<open>this.root\<close> that returns
  it (or throws).
\<close>

type_synonym projectionMap = "(string \<times> fieldConfig) list"

datatype projectionMapArg =
    MapArg projectionMap
  | FunctionArg "GroqBuilder \<Rightarrow> error + projectionMap"

section \<open>Functions and members defined outside the two source files\<close>

text \<open>
  \<open>project\<close> and its helpers call functions of other modules, and two members of the
  builder, whose bodies are not part of the sources at hand. They are parameters of the
  model, collected in one record, so that every theorem holds for each implementation of
  them (or states what it needs of them):
  \<^item> \<open>isConditional\<close> from \<^verbatim>\<open>./conditional-types\<close>;
  \<^item> \<open>isParser\<close> and \<open>normalizeValidationFunction\<close> from \<^verbatim>\<open>./validate-utils\<close>;
  \<^item> \<open>simpleObjectParser\<close> and \<open>simpleArrayParser\<close> from \<^verbatim>\<open>../validation/simple-validation\<close>;
  \<^item> \<open>objectValidation.object\<close> and \<open>arrayValidation.array\<close>, which the older
    \<open>createProjectionParser\<close> calls in their place;
  \<^item> \<open>chainParsers\<close> from \<^verbatim>\<open>./commands/parseUtils\<close>;
  \<^item> the members \<^verbatim>\<open>this.root\<close> and \<^verbatim>\<open>this.indentation\<close>.
\<close>

record imported =
  isConditional :: "string \<Rightarrow> bool"
  isParser :: "fieldConfig \<Rightarrow> bool"
  normalizeValidationFunction :: "fieldConfig \<Rightarrow> error + ParserFunction option"
  simpleObjectParser :: "(string \<times> ParserFunction option) list \<Rightarrow> ParserFunction"
  simpleArrayParser :: "ParserFunction \<Rightarrow> ParserFunction"
  objectValidation_object :: "(string \<times> ParserFunction option) list \<Rightarrow> ParserFunction"
  arrayValidation_array :: "ParserFunction \<Rightarrow> ParserFunction"
  chainParsers :: "ParserFunction option \<Rightarrow> ParserFunction option \<Rightarrow> ParserFunction option"
  root :: "GroqBuilder \<Rightarrow> GroqBuilder"
  indentation_of :: "GroqBuilder \<Rightarrow> indentation"

section \<open>The builder's chain\<close>

text \<open>
  \<^verbatim>\<open>chain(query, parser = null)\<close> of the class in \<^verbatim>\<open>commands/project.ts\<close>: the node that
  \<^verbatim>\<open>new GroqBuilder({...})\<close> is given. The class on which the newer \<open>project\<close> calls
  \<^verbatim>\<open>this.chain\<close> is not part of the sources at hand; it is taken to chain the same way.
\<close>

definition chain :: "imported \<Rightarrow> GroqBuilder \<Rightarrow> string \<Rightarrow> ParserFunction option \<Rightarrow> GroqBuilder" where
  "chain h this q p =
     \<lparr> query = query this @ q,
       parser = chainParsers h (parser this) p,
       options = options this \<rparr>"



section \<open>Normalizing one field\<close>

text \<open>The double quote of the template literals.\<close>

definition dq :: string where
  "dq = [CHR 0x22]"

text \<open>
  \<open>normalizeProjectionField\<close>, the same text in both source files. \<open>Inr None\<close> is the
  \<^verbatim>\<open>null\<close> of an excluded field, \<open>Inl\<close> a throw.
\<close>

fun normalizeProjectionField ::
  "imported \<Rightarrow> string \<Rightarrow> fieldConfig \<Rightarrow> error + NormalizedProjectionField option" where
  "normalizeProjectionField h k (BuilderValue v) =
     (let q = (if isConditional h k then query v
               else if k = query v then k
               else dq @ k @ dq @ '': '' @ query v)
      in Inr (Some \<lparr> key = k, fquery = q, fparser = parser v \<rparr>))"
| "normalizeProjectionField h k (StringValue v) =
     (let q = (if k = v then k else dq @ k @ dq @ '': '' @ v)
      in Inr (Some \<lparr> key = k, fquery = q, fparser = None \<rparr>))"
| "normalizeProjectionField h k (BooleanValue v) =
     (if v = False then Inr None
      else Inr (Some \<lparr> key = k, fquery = k, fparser = None \<rparr>))"
| "normalizeProjectionField h k (ArrayValue projectionKey p) =
     (let q = (if k = projectionKey then k else dq @ k @ dq @ '': '' @ projectionKey)
      in case normalizeValidationFunction h p of
           Inl e \<Rightarrow> Inl e
         | Inr np \<Rightarrow> Inr (Some \<lparr> key = k, fquery = q, fparser = np \<rparr>))"
| "normalizeProjectionField h k v =
     (if isParser h v
      then (case normalizeValidationFunction h v of
              Inl e \<Rightarrow> Inl e
            | Inr np \<Rightarrow> Inr (Some \<lparr> key = k, fquery = k, fparser = np \<rparr>))
      else Inl (Error (''Unexpected value for projection key '' @ dq @ k @ dq
                        @ '': '' @ dq @ typeof v @ dq)))"

text \<open>
  \<^verbatim>\<open>keys.map(...).filter(notNull)\<close>: the fields in key order; the first throw ends the map.
\<close>

fun normalizeFields ::
  "imported \<Rightarrow> projectionMap \<Rightarrow> error + NormalizedProjectionField list" where
  "normalizeFields h [] = Inr []"
| "normalizeFields h ((k, v) # rest) =
     (case normalizeProjectionField h k v of
        Inl e \<Rightarrow> Inl e
      | Inr r \<Rightarrow>
          (case normalizeFields h rest of
             Inl e \<Rightarrow> Inl e
           | Inr fs \<Rightarrow> Inr (case r of None \<Rightarrow> fs | Some f \<Rightarrow> f # fs)))"

section \<open>The combined parser\<close>

text \<open>
  \<^verbatim>\<open>result[k] = v\<close> on an object: an existing property keeps its place and takes the new
  value, a new property is added at the end.
\<close>

fun setProperty :: "(string \<times> 'a) list \<Rightarrow> string \<Rightarrow> 'a \<Rightarrow> (string \<times> 'a) list" where
  "setProperty [] k v = [(k, v)]"
| "setProperty ((k', v') # rest) k v =
     (if k' = k then (k, v) # rest else (k', v') # setProperty rest k v)"

text \<open>The decimal digits of an array index, as a property name.\<close>

function indexName :: "nat \<Rightarrow> string" where
  "indexName n =
     (if n < 10 then [''0123456789'' ! n]
      else indexName (n div 10) @ [''0123456789'' ! (n mod 10)])"
  by pat_completeness auto
termination
  by (relation "measure id") auto

declare indexName.simps [simp del]

text \<open>
  The own enumerable properties that \<^verbatim>\<open>Object.assign\<close> copies from its source: those of an
  object, the indexed elements of an array, the indexed characters of a string, and
  nothing for \<^verbatim>\<open>null\<close>, \<^verbatim>\<open>undefined\<close>, a number or a boolean.
\<close>

fun ownProperties :: "jsvalue \<Rightarrow> (string \<times> jsvalue) list" where
  "ownProperties (JObject kvs) = kvs"
| "ownProperties (JArray xs) = zip (map indexName [0 ..< length xs]) xs"
| "ownProperties (JString s) = zip (map indexName [0 ..< length s]) (map (\<lambda>c. JString [c]) s)"
| "ownProperties v = []"

text \<open>
  \<^verbatim>\<open>v[k]\<close> for an own property: its value, or \<open>None\<close> when \<open>v\<close> has no such property.
  Should an association list name a key twice, the later entry counts, as in an object
  literal.
\<close>

definition getProperty :: "jsvalue \<Rightarrow> string \<Rightarrow> jsvalue option" where
  "getProperty v k = map_of (rev (ownProperties v)) k"

text \<open>The names of the own properties of a value.\<close>

definition propertyNames :: "jsvalue \<Rightarrow> string set" where
  "propertyNames v = fst ` set (ownProperties v)"

text \<open>\<^verbatim>\<open>Object.assign(result, parsed)\<close>, returning the updated \<open>result\<close>.\<close>

definition assign :: "(string \<times> jsvalue) list \<Rightarrow> jsvalue \<Rightarrow> (string \<times> jsvalue) list" where
  "assign result parsed = foldl (\<lambda>r (k, v). setProperty r k v) result (ownProperties parsed)"

text \<open>
  The loop of \<open>combinedParser\<close>: each parser of \<open>combinedParsers\<close> in turn is applied to
  \<open>input\<close> and its output assigned to \<open>result\<close>; a throw leaves the loop.
\<close>

fun combineLoop ::
  "ParserFunction list \<Rightarrow> jsvalue \<Rightarrow> (string \<times> jsvalue) list \<Rightarrow> error + (string \<times> jsvalue) list" where
  "combineLoop [] input result = Inr result"
| "combineLoop (p # ps) input result =
     (case p input of
        Inl e \<Rightarrow> Inl e
      | Inr parsed \<Rightarrow> combineLoop ps input (assign result parsed))"

definition combinedParser :: "ParserFunction list \<Rightarrow> ParserFunction" where
  "combinedParser combinedParsers input =
     (case combineLoop combinedParsers input [] of
        Inl e \<Rightarrow> Inl e
      | Inr result \<Rightarrow> Inr (JObject result))"

text \<open>\<^verbatim>\<open>Array.isArray\<close> on a raw value.\<close>

fun isArray :: "jsvalue \<Rightarrow> bool" where
  "isArray (JArray xs) = True"
| "isArray v = False"

text \<open>
  \<^verbatim>\<open>Object.fromEntries\<close>: the entries set one after the other on an empty object.
\<close>

definition fromEntries :: "(string \<times> 'a) list \<Rightarrow> (string \<times> 'a) list" where
  "fromEntries es = foldl (\<lambda>r (k, v). setProperty r k v) [] es"

text \<open>The parsers that \<open>createProjectionParser\<close> combines, first the object parser.\<close>

definition normalFields :: "imported \<Rightarrow> NormalizedProjectionField list \<Rightarrow> NormalizedProjectionField list" where
  "normalFields h fs = filter (\<lambda>f. \<not> isConditional h (key f)) fs"

definition objectShape :: "imported \<Rightarrow> NormalizedProjectionField list \<Rightarrow> (string \<times> ParserFunction option) list" where
  "objectShape h fs = fromEntries (map (\<lambda>f. (key f, fparser f)) (normalFields h fs))"

definition conditionalFields :: "imported \<Rightarrow> NormalizedProjectionField list \<Rightarrow> NormalizedProjectionField list" where
  "conditionalFields h fs = filter (\<lambda>f. isConditional h (key f)) fs"

definition conditionalParsers :: "imported \<Rightarrow> NormalizedProjectionField list \<Rightarrow> ParserFunction list" where
  "conditionalParsers h fs = List.map_filter fparser (conditionalFields h fs)"

definition combinedParsers :: "imported \<Rightarrow> NormalizedProjectionField list \<Rightarrow> ParserFunction list" where
  "combinedParsers h fs = simpleObjectParser h (objectShape h fs) # conditionalParsers h fs"

text \<open>\<open>createProjectionParser\<close> of the newer source file.\<close>

definition createProjectionParser ::
  "imported \<Rightarrow> NormalizedProjectionField list \<Rightarrow> ParserFunction option" where
  "createProjectionParser h fs =
     (if \<not> list_ex (\<lambda>f. fparser f \<noteq> None) fs then None
      else
        let arrayParser = simpleArrayParser h (combinedParser (combinedParsers h fs))
        in Some (\<lambda>input.
             if \<not> isArray input then combinedParser (combinedParsers h fs) input
             else arrayParser input))"



section \<open>project\<close>

text \<open>\<^verbatim>\<open>Array.prototype.join\<close> on strings.\<close>

fun join :: "string \<Rightarrow> string list \<Rightarrow> string" where
  "join sep [] = []"
| "join sep [x] = x"
| "join sep (x # y # ys) = x @ sep @ join sep (y # ys)"

text \<open>The projection map that \<open>project\<close> works on.\<close>

fun retrieveProjectionMap :: "imported \<Rightarrow> GroqBuilder \<Rightarrow> projectionMapArg \<Rightarrow> error + projectionMap" where
  "retrieveProjectionMap h this (FunctionArg g) = g (root h this)"
| "retrieveProjectionMap h this (MapArg m) = Inr m"

text \<open>The brace block built from the fields' queries.\<close>

definition newQuery :: "indentation \<Rightarrow> string list \<Rightarrow> string" where
  "newQuery ind queries =
     '' {'' @ newLine ind @ space ind
       @ join ('','' @ newLine ind @ space ind) queries
       @ newLine ind @ ''}''"

text \<open>The message of the error thrown when \<open>validationRequired\<close> finds fields with no parser.\<close>

definition missingValidationMessage :: "NormalizedProjectionField list \<Rightarrow> string" where
  "missingValidationMessage invalidFields =
     ''[groq-builder] Because '' @ [CHR 0x27] @ ''validationRequired'' @ [CHR 0x27] @ '' is enabled, ''
     @ ''every field must have validation (like `q.string()`), ''
     @ ''but the following fields are missing it: ''
     @ join '','' (map (\<lambda>f. dq @ key f @ dq) invalidFields)"

text \<open>\<open>project\<close> of the newer source file.\<close>

definition project :: "imported \<Rightarrow> GroqBuilder \<Rightarrow> projectionMapArg \<Rightarrow> error + GroqBuilder" where
  "project h this projectionMapArg =
     (case retrieveProjectionMap h this projectionMapArg of
        Inl e \<Rightarrow> Inl e
      | Inr projectionMap \<Rightarrow>
     (case normalizeFields h projectionMap of
        Inl e \<Rightarrow> Inl e
      | Inr fs \<Rightarrow>
          let invalidFields = filter (\<lambda>f. fparser f = None) fs in
          if validationRequired (options this) \<and> length invalidFields \<noteq> 0
          then Inl (TypeError (missingValidationMessage invalidFields))
          else
            let queries = map fquery fs;
                projectionParser = createProjectionParser h fs
            in Inr (chain h this (newQuery (indentation_of h this) queries) projectionParser)))"


section \<open>The imported functions, as the specification describes them\<close>

text \<open>
  Modelled from the spec: \<open>chainParsers\<close> (\<^verbatim>\<open>./commands/parseUtils\<close>), the parser composition
  primitive. Both absent gives absent; one absent gives the other, not wrapped; both
  present gives the parser that runs the first, then the second on the first's output, and
  fails with the error of the stage that fails.
\<close>

fun chainParsers_spec :: "ParserFunction option \<Rightarrow> ParserFunction option \<Rightarrow> ParserFunction option" where
  "chainParsers_spec None None = None"
| "chainParsers_spec (Some a) None = Some a"
| "chainParsers_spec None (Some b) = Some b"
| "chainParsers_spec (Some a) (Some b) =
     Some (\<lambda>input. case a input of Inl e \<Rightarrow> Inl e | Inr x \<Rightarrow> b x)"

text \<open>
  Modelled from the spec: the element-wise pass of the array-shape validator. The elements
  of a list are parsed one after the other; the first failure is the result.
\<close>

fun parseEach :: "ParserFunction \<Rightarrow> jsvalue list \<Rightarrow> error + jsvalue list" where
  "parseEach p [] = Inr []"
| "parseEach p (x # xs) =
     (case p x of
        Inl e \<Rightarrow> Inl e
      | Inr y \<Rightarrow> (case parseEach p xs of Inl e \<Rightarrow> Inl e | Inr ys \<Rightarrow> Inr (y # ys)))"

text \<open>
  Modelled from the spec: \<open>simpleArrayParser\<close> (\<^verbatim>\<open>../validation/simple-validation\<close>), the
  array-shape validator. Given a list it applies the item parser element-wise and returns
  a list of equal length and order; a validation error propagates unchanged. The spec
  says nothing of an input that is no list (\<open>projectionParser\<close> passes none): it is
  rejected here.
\<close>

fun simpleArrayParser_spec :: "ParserFunction \<Rightarrow> ParserFunction" where
  "simpleArrayParser_spec p (JArray xs) =
     (case parseEach p xs of Inl e \<Rightarrow> Inl e | Inr ys \<Rightarrow> Inr (JArray ys))"
| "simpleArrayParser_spec p v = Inl (TypeError ''Expected an array'')"

text \<open>
  Modelled from the spec: the pass of the object-shape validator over its shape. The keys
  of the shape are looked up in the input mapping, in the order of the shape.
\<close>

fun parseShape ::
  "(string \<times> ParserFunction option) list \<Rightarrow> (string \<times> jsvalue) list \<Rightarrow> error + (string \<times> jsvalue) list" where
  "parseShape [] input = Inr []"
| "parseShape ((k, p) # shape) input =
     (case map_of (rev input) k of
        None \<Rightarrow> parseShape shape input
      | Some raw \<Rightarrow>
          (case (case p of None \<Rightarrow> Inr raw | Some f \<Rightarrow> f raw) of
             Inl e \<Rightarrow> Inl e
           | Inr v \<Rightarrow>
               (case parseShape shape input of
                  Inl e \<Rightarrow> Inl e
                | Inr rest \<Rightarrow> Inr ((k, v) # rest))))"

text \<open>
  Modelled from the spec: \<open>simpleObjectParser\<close> (\<^verbatim>\<open>../validation/simple-validation\<close>), the
  object-shape validator. The input is a mapping from key to raw value; for each key of the
  shape with a parser the raw value is replaced by the parser's output, a key without a
  parser passes through unchanged, and a key absent from the input is omitted from the
  output, never defaulted. The spec says nothing of an input that is no mapping: it is
  rejected here.
\<close>

fun simpleObjectParser_spec :: "(string \<times> ParserFunction option) list \<Rightarrow> ParserFunction" where
  "simpleObjectParser_spec shape (JObject input) =
     (case parseShape shape input of Inl e \<Rightarrow> Inl e | Inr kvs \<Rightarrow> Inr (JObject kvs))"
| "simpleObjectParser_spec shape v = Inl (TypeError ''Expected an object'')"

text \<open>
  Modelled from the spec: \<open>isParser\<close> (\<^verbatim>\<open>./validate-utils\<close>). A parser is a parser function
  or a raw validation object.
\<close>

fun isParser_spec :: "fieldConfig \<Rightarrow> bool" where
  "isParser_spec (FunctionValue f) = True"
| "isParser_spec (ParserObject f) = True"
| "isParser_spec v = False"

text \<open>
  Modelled from the spec: \<open>normalizeValidationFunction\<close> (\<^verbatim>\<open>./validate-utils\<close>). A parser
  function is returned as it is and a raw validation object is wrapped to a parser
  function. The spec says nothing of any other value: it is rejected here.
\<close>

fun normalizeValidationFunction_spec :: "fieldConfig \<Rightarrow> error + ParserFunction option" where
  "normalizeValidationFunction_spec (FunctionValue f) = Inr (Some f)"
| "normalizeValidationFunction_spec (ParserObject f) = Inr (Some (\<lambda>input. f input))"
| "normalizeValidationFunction_spec v = Inl (TypeError ''Expected a parser'')"

text \<open>
  One instance of the imported functions, for the closed examples below. The validators
  and the composition are the ones modelled from the spec; the rest is a sample choice:
  a key is conditional when it starts with an opening bracket, \<^verbatim>\<open>this.root\<close> is the node with
  the empty query, and the indentation is the one the snapshots of
  \<^verbatim>\<open>commands/project.ts\<close> show for the default options (\<^verbatim>\<open>{ id, name, price, msrp }\<close>).
\<close>

definition sample :: imported where
  "sample =
     \<lparr> isConditional = (\<lambda>k. take 1 k = ''[''),
       isParser = isParser_spec,
       normalizeValidationFunction = normalizeValidationFunction_spec,
       simpleObjectParser = simpleObjectParser_spec,
       simpleArrayParser = simpleArrayParser_spec,
       objectValidation_object = simpleObjectParser_spec,
       arrayValidation_array = simpleArrayParser_spec,
       chainParsers = chainParsers_spec,
       root = (\<lambda>this. \<lparr> query = [], parser = None, options = options this \<rparr>),
       indentation_of = (\<lambda>this.
         \<lparr> newLine = (if indent (options this) = [] then '' '' else [CHR 0x0A]),
           space = indent (options this) \<rparr>) \<rparr>"

section \<open>Sample nodes and parsers\<close>

text \<open>The values the closed examples are computed on.\<close>

definition sampleNode :: GroqBuilder where
  "sampleNode = \<lparr> query = ''*'', parser = None,
                  options = \<lparr> indent = [], validationRequired = False \<rparr> \<rparr>"

definition strictNode :: GroqBuilder where
  "strictNode = \<lparr> query = ''*'', parser = None,
                  options = \<lparr> indent = [], validationRequired = True \<rparr> \<rparr>"

definition stringParser :: ParserFunction where
  "stringParser v = (case v of JString s \<Rightarrow> Inr (JString s) | _ \<Rightarrow> Inl (TypeError ''Expected a string''))"

definition branchA :: ParserFunction where
  "branchA input = Inr (JObject [(''kind'', JString ''A''), (''name'', JString ''from A'')])"

definition branchB :: ParserFunction where
  "branchB input = Inr (JObject [(''kind'', JString ''B'')])"

definition sampleFields :: "NormalizedProjectionField list" where
  "sampleFields =
     [\<lparr> key = ''name'', fquery = ''name'', fparser = Some stringParser \<rparr>,
      \<lparr> key = ''[a]'', fquery = ''a => {kind, name}'', fparser = Some branchA \<rparr>,
      \<lparr> key = ''[b]'', fquery = ''b => {kind}'', fparser = Some branchB \<rparr>]"

definition sampleInput :: jsvalue where
  "sampleInput = JObject [(''name'', JString ''raw''), (''other'', JNumber 1)]"

definition strictMap :: projectionMap where
  "strictMap = [(''name'', BooleanValue True),
                (''price'', FunctionValue stringParser),
                (''hidden'', BooleanValue False),
                (''msrp'', StringValue ''msrp'')]"

definition validatedMap :: projectionMap where
  "validatedMap = [(''name'', FunctionValue stringParser),
                   (''TITLE'', ArrayValue ''title'' (ParserObject stringParser))]"

definition plainMap :: projectionMap where
  "plainMap = [(''name'', BooleanValue True),
               (''hidden'', BooleanValue False),
               (''SLUG'', StringValue ''slug.current'')]"

section \<open>The nested-builder case of the normalizer\<close>

text \<open>
  C1. For every key and every nested builder node as field configuration, the normalizer
  returns a field whose query is the nested node's query verbatim when the key is
  conditional, the bare key when the key is not conditional and the nested query equals
  it, and \<^verbatim>\<open>"<key>": <nested query>\<close> otherwise; in all three cases the field's parser is the
  nested node's parser, unchanged.
\<close>

theorem normalizeProjectionField_nested_builder:
  "(isConditional h k \<longrightarrow>
      normalizeProjectionField h k (BuilderValue v)
        = Inr (Some \<lparr> key = k, fquery = query v, fparser = parser v \<rparr>))
   \<and> (\<not> isConditional h k \<and> query v = k \<longrightarrow>
      normalizeProjectionField h k (BuilderValue v)
        = Inr (Some \<lparr> key = k, fquery = k, fparser = parser v \<rparr>))
   \<and> (\<not> isConditional h k \<and> query v \<noteq> k \<longrightarrow>
      normalizeProjectionField h k (BuilderValue v)
        = Inr (Some \<lparr> key = k, fquery = dq @ k @ dq @ '': '' @ query v, fparser = parser v \<rparr>))"
  by auto

theorem normalizeProjectionField_nested_builder_witness:
  "isConditional sample ''[$x]''
   \<and> normalizeProjectionField sample ''[$x]'' (BuilderValue (sampleNode\<lparr>query := ''a => b''\<rparr>))
       = Inr (Some \<lparr> key = ''[$x]'', fquery = ''a => b'', fparser = None \<rparr>)
   \<and> \<not> isConditional sample ''name''
   \<and> normalizeProjectionField sample ''name'' (BuilderValue (sampleNode\<lparr>query := ''name''\<rparr>))
       = Inr (Some \<lparr> key = ''name'', fquery = ''name'', fparser = None \<rparr>)
   \<and> normalizeProjectionField sample ''NAME'' (BuilderValue (sampleNode\<lparr>query := ''name''\<rparr>))
       = Inr (Some \<lparr> key = ''NAME'', fquery = dq @ ''NAME'' @ dq @ '': name'', fparser = None \<rparr>)"
  using normalizeProjectionField_nested_builder [of sample "''[$x]''" "sampleNode\<lparr>query := ''a => b''\<rparr>"]
        normalizeProjectionField_nested_builder [of sample "''name''" "sampleNode\<lparr>query := ''name''\<rparr>"]
        normalizeProjectionField_nested_builder [of sample "''NAME''" "sampleNode\<lparr>query := ''name''\<rparr>"]
  by (simp add: sample_def sampleNode_def)

section \<open>Properties of the merge\<close>

text \<open>
  What \<^verbatim>\<open>Object.assign\<close> leaves in \<open>result\<close>: each property holds the value of the last
  source that has it.
\<close>

lemma map_of_setProperty: "map_of (setProperty r k v) = (map_of r)(k \<mapsto> v)"
  by (induction r) (auto simp: fun_eq_iff)

lemma names_setProperty: "fst ` set (setProperty r k v) = insert k (fst ` set r)"
proof (induction r)
  case Nil
  then show ?case by simp
next
  case (Cons a r)
  then show ?case by (cases a) (simp add: insert_commute)
qed

lemma distinct_setProperty:
  "distinct (map fst r) \<Longrightarrow> distinct (map fst (setProperty r k v))"
proof (induction r)
  case Nil
  then show ?case by simp
next
  case (Cons a r)
  obtain k' v' where a: "a = (k', v')" by (cases a)
  show ?case
  proof (cases "k' = k")
    case True
    with Cons.prems a show ?thesis by simp
  next
    case False
    have "k' \<notin> fst ` set (setProperty r k v)"
      using Cons.prems a False by (simp add: names_setProperty)
    with Cons a False show ?thesis by simp
  qed
qed

lemma map_of_setProperties:
  "map_of (foldl (\<lambda>r (k, v). setProperty r k v) r kvs) = map_of r ++ map_of (rev kvs)"
  by (induction kvs arbitrary: r) (auto simp: map_of_setProperty)

lemma distinct_setProperties:
  "distinct (map fst r) \<Longrightarrow> distinct (map fst (foldl (\<lambda>r (k, v). setProperty r k v) r kvs))"
  by (induction kvs arbitrary: r) (auto simp: distinct_setProperty)

lemma setProperty_new: "k \<notin> fst ` set r \<Longrightarrow> setProperty r k v = r @ [(k, v)]"
  by (induction r) auto

lemma setProperties_distinct:
  "distinct (map fst (r @ es)) \<Longrightarrow> foldl (\<lambda>r (k, v). setProperty r k v) r es = r @ es"
proof (induction es arbitrary: r)
  case Nil
  then show ?case by simp
next
  case (Cons e es)
  obtain k v where e: "e = (k, v)" by (cases e)
  have "k \<notin> fst ` set r" using Cons.prems e by auto
  then have "setProperty r k v = r @ [(k, v)]" by (rule setProperty_new)
  moreover have "distinct (map fst ((r @ [(k, v)]) @ es))" using Cons.prems e by simp
  ultimately show ?case using Cons.IH [of "r @ [(k, v)]"] e by simp
qed

lemma fromEntries_distinct: "distinct (map fst es) \<Longrightarrow> fromEntries es = es"
  using setProperties_distinct [of "[]" es] by (simp add: fromEntries_def)

lemma objectShape_distinct:
  assumes "distinct (map key fs)"
  shows "objectShape h fs = map (\<lambda>f. (key f, fparser f)) (filter (\<lambda>f. \<not> isConditional h (key f)) fs)"
proof -
  have "distinct (map key (filter (\<lambda>f. \<not> isConditional h (key f)) fs))"
    using assms by (rule distinct_map_filter)
  then have "distinct (map fst (map (\<lambda>f. (key f, fparser f)) (filter (\<lambda>f. \<not> isConditional h (key f)) fs)))"
    by (simp add: comp_def)
  then show ?thesis
    unfolding objectShape_def normalFields_def by (rule fromEntries_distinct)
qed

lemma map_of_assign: "map_of (assign r x) k = (case getProperty x k of None \<Rightarrow> map_of r k | Some v \<Rightarrow> Some v)"
  by (simp add: assign_def getProperty_def map_of_setProperties map_add_def)

lemma distinct_assign: "distinct (map fst r) \<Longrightarrow> distinct (map fst (assign r x))"
  by (simp add: assign_def distinct_setProperties)

lemma distinct_assigns: "distinct (map fst r) \<Longrightarrow> distinct (map fst (foldl assign r xs))"
  by (induction xs arbitrary: r) (auto simp: distinct_assign)

lemma getProperty_None_iff: "getProperty x k = None \<longleftrightarrow> k \<notin> propertyNames x"
  by (simp add: getProperty_def propertyNames_def map_of_eq_None_iff)

lemma getProperty_distinct:
  "distinct (map fst r) \<Longrightarrow> getProperty (JObject r) k = map_of r k"
proof -
  assume d: "distinct (map fst r)"
  then have "distinct (map fst (rev r))" by (simp add: rev_map [symmetric])
  then have "map_of (rev r) = map_of r"
    using d by (simp add: map_of_inject_set)
  then show ?thesis by (simp add: getProperty_def)
qed

lemma assigns_absent:
  "\<forall>x \<in> set xs. k \<notin> propertyNames x \<Longrightarrow> map_of (foldl assign r xs) k = map_of r k"
  by (induction xs arbitrary: r) (auto simp: map_of_assign getProperty_None_iff [symmetric])

lemma assigns_last:
  assumes "j < length xs" and "k \<in> propertyNames (xs ! j)"
    and "\<forall>i. j < i \<and> i < length xs \<longrightarrow> k \<notin> propertyNames (xs ! i)"
  shows "map_of (foldl assign r xs) k = getProperty (xs ! j) k"
proof -
  have split: "xs = take j xs @ (xs ! j) # drop (Suc j) xs"
    using assms(1) by (simp add: id_take_nth_drop)
  have later: "\<forall>x \<in> set (drop (Suc j) xs). k \<notin> propertyNames x"
  proof
    fix x assume "x \<in> set (drop (Suc j) xs)"
    then obtain i where "i < length (drop (Suc j) xs)" "x = drop (Suc j) xs ! i"
      by (auto simp: in_set_conv_nth)
    then show "k \<notin> propertyNames x" using assms(3) by simp
  qed
  obtain v where v: "getProperty (xs ! j) k = Some v"
    using assms(2) getProperty_None_iff [of "xs ! j" k] by (cases "getProperty (xs ! j) k") auto
  have "foldl assign r xs
        = foldl assign (assign (foldl assign r (take j xs)) (xs ! j)) (drop (Suc j) xs)"
    by (subst split) simp
  then have "map_of (foldl assign r xs) k = map_of (assign (foldl assign r (take j xs)) (xs ! j)) k"
    using assigns_absent [OF later] by simp
  also have "\<dots> = Some v" by (simp add: map_of_assign v)
  finally show ?thesis using v by simp
qed

lemma combineLoop_returns:
  "list_all2 (\<lambda>p r. p input = Inr r) ps rs \<Longrightarrow> combineLoop ps input acc = Inr (foldl assign acc rs)"
  by (induction ps rs arbitrary: acc rule: list_all2_induct) auto

lemma combineLoop_throws:
  "list_all2 (\<lambda>p r. p input = Inr r) ps rs \<Longrightarrow> p input = Inl e
   \<Longrightarrow> combineLoop (ps @ p # qs) input acc = Inl e"
  by (induction ps rs arbitrary: acc rule: list_all2_induct) auto


lemma projectionParser_object:
  "createProjectionParser h fs = Some P \<Longrightarrow> \<not> isArray input
   \<Longrightarrow> P input = combinedParser (combinedParsers h fs) input"
  by (auto simp: createProjectionParser_def Let_def split: if_splits)

lemma combinedParser_returns:
  assumes "p input = Inr shaped" and "list_all2 (\<lambda>p r. p input = Inr r) ps rs"
  shows "combinedParser (p # ps) input = Inr (JObject (foldl assign (assign [] shaped) rs))"
  using assms by (simp add: combinedParser_def combineLoop_returns)

lemma combinedParser_throws_first:
  "p input = Inl e \<Longrightarrow> combinedParser (p # ps) input = Inl e"
  by (simp add: combinedParser_def)

lemma combinedParser_throws_later:
  assumes "p input = Inr shaped" and "list_all2 (\<lambda>p r. p input = Inr r) ps rs"
    and "q input = Inl e"
  shows "combinedParser (p # ps @ q # qs) input = Inl e"
  using assms by (simp add: combinedParser_def combineLoop_throws)

lemma merged_absent:
  assumes "\<forall>r \<in> set rs. k \<notin> propertyNames r"
  shows "getProperty (JObject (foldl assign (assign [] shaped) rs)) k = getProperty shaped k"
proof -
  have d: "distinct (map fst (foldl assign (assign [] shaped) rs))"
    by (simp add: distinct_assigns distinct_assign)
  have "map_of (foldl assign (assign [] shaped) rs) k = map_of (assign [] shaped) k"
    using assms by (rule assigns_absent)
  also have "\<dots> = getProperty shaped k"
    by (simp add: map_of_assign split: option.splits)
  finally show ?thesis by (simp add: getProperty_distinct [OF d])
qed

lemma merged_last:
  assumes "j < length rs" and "k \<in> propertyNames (rs ! j)"
    and "\<forall>i. j < i \<and> i < length rs \<longrightarrow> k \<notin> propertyNames (rs ! i)"
  shows "getProperty (JObject (foldl assign (assign [] shaped) rs)) k = getProperty (rs ! j) k"
proof -
  have d: "distinct (map fst (foldl assign (assign [] shaped) rs))"
    by (simp add: distinct_assigns distinct_assign)
  show ?thesis
    using assigns_last [OF assms] by (simp add: getProperty_distinct [OF d])
qed

text \<open>The sample fields evaluated.\<close>

lemma sample_conditionalParsers: "conditionalParsers sample sampleFields = [branchA, branchB]"
  by (simp add: conditionalParsers_def conditionalFields_def sampleFields_def sample_def)

lemma sample_shaped:
  "simpleObjectParser sample (objectShape sample sampleFields) sampleInput
     = Inr (JObject [(''name'', JString ''raw'')])"
  by (simp add: objectShape_def normalFields_def fromEntries_def sampleFields_def sample_def
        sampleInput_def stringParser_def)

lemma sample_exists:
  "createProjectionParser sample sampleFields = Some (the (createProjectionParser sample sampleFields))"
  by (simp add: createProjectionParser_def sampleFields_def Let_def)

section \<open>The combined parser on a single object\<close>

text \<open>
  C3. When the combined parser of a projection exists and is applied to a raw input that
  is no array, the object-shape parser over the non-conditional fields is applied first,
  then the parser of each conditional field, in the order of the fields, each to the same
  raw input (the shape of the object parser lists the non-conditional fields, key and
  parser, when the keys are distinct as those of a map are). The first parser to throw
  decides the error. When all return, the result is
  the object parser's output with every conditional output assigned over it in turn: a
  property named by no conditional output keeps the object parser's value, and a property
  named by conditional outputs holds the value of the last of them, so of two conditional
  fields whose outputs share a key the later-declared one's value is in the result.
\<close>

theorem combinedParser_merges_conditionals:
  assumes P: "createProjectionParser h fs = Some P"
    and input: "\<not> isArray input"
  shows
   "(distinct (map key fs) \<longrightarrow>
       objectShape h fs
         = map (\<lambda>f. (key f, fparser f)) (filter (\<lambda>f. \<not> isConditional h (key f)) fs))
    \<and> conditionalParsers h fs
      = concat (map (\<lambda>f. if isConditional h (key f)
                          then (case fparser f of None \<Rightarrow> [] | Some p \<Rightarrow> [p]) else []) fs)
    \<and> (\<forall>e. simpleObjectParser h (objectShape h fs) input = Inl e \<longrightarrow> P input = Inl e)
    \<and> (\<forall>shaped. simpleObjectParser h (objectShape h fs) input = Inr shaped \<longrightarrow>
         (\<forall>ps rs q e qs.
            conditionalParsers h fs = ps @ q # qs
            \<and> list_all2 (\<lambda>p r. p input = Inr r) ps rs \<and> q input = Inl e
            \<longrightarrow> P input = Inl e)
       \<and> (\<forall>rs. list_all2 (\<lambda>p r. p input = Inr r) (conditionalParsers h fs) rs \<longrightarrow>
            (\<exists>result. P input = Inr (JObject result)
               \<and> result = foldl assign (assign [] shaped) rs
               \<and> (\<forall>k. (\<forall>r \<in> set rs. k \<notin> propertyNames r)
                      \<longrightarrow> getProperty (JObject result) k = getProperty shaped k)
               \<and> (\<forall>k j. j < length rs \<and> k \<in> propertyNames (rs ! j)
                        \<and> (\<forall>i. j < i \<and> i < length rs \<longrightarrow> k \<notin> propertyNames (rs ! i))
                      \<longrightarrow> getProperty (JObject result) k = getProperty (rs ! j) k))))"
proof -
  have eq: "P input = combinedParser (simpleObjectParser h (objectShape h fs) # conditionalParsers h fs) input"
    using projectionParser_object [OF P input] by (simp add: combinedParsers_def)
  have order: "conditionalParsers h fs
      = concat (map (\<lambda>f. if isConditional h (key f)
                          then (case fparser f of None \<Rightarrow> [] | Some p \<Rightarrow> [p]) else []) fs)"
    unfolding conditionalParsers_def conditionalFields_def
    by (induction fs) (auto split: option.splits)
  have first: "\<forall>e. simpleObjectParser h (objectShape h fs) input = Inl e \<longrightarrow> P input = Inl e"
    by (simp add: eq combinedParser_throws_first)
  have rest: "\<forall>shaped. simpleObjectParser h (objectShape h fs) input = Inr shaped \<longrightarrow>
         (\<forall>ps rs q e qs.
            conditionalParsers h fs = ps @ q # qs
            \<and> list_all2 (\<lambda>p r. p input = Inr r) ps rs \<and> q input = Inl e
            \<longrightarrow> P input = Inl e)
       \<and> (\<forall>rs. list_all2 (\<lambda>p r. p input = Inr r) (conditionalParsers h fs) rs \<longrightarrow>
            (\<exists>result. P input = Inr (JObject result)
               \<and> result = foldl assign (assign [] shaped) rs
               \<and> (\<forall>k. (\<forall>r \<in> set rs. k \<notin> propertyNames r)
                      \<longrightarrow> getProperty (JObject result) k = getProperty shaped k)
               \<and> (\<forall>k j. j < length rs \<and> k \<in> propertyNames (rs ! j)
                        \<and> (\<forall>i. j < i \<and> i < length rs \<longrightarrow> k \<notin> propertyNames (rs ! i))
                      \<longrightarrow> getProperty (JObject result) k = getProperty (rs ! j) k)))"
  proof (intro allI impI conjI)
    fix shaped ps rs q e qs
    assume s: "simpleObjectParser h (objectShape h fs) input = Inr shaped"
      and "conditionalParsers h fs = ps @ q # qs
            \<and> list_all2 (\<lambda>p r. p input = Inr r) ps rs \<and> q input = Inl e"
    then show "P input = Inl e"
      using combinedParser_throws_later [of "simpleObjectParser h (objectShape h fs)" input shaped ps rs q e qs]
      by (simp add: eq)
  next
    fix shaped rs
    assume s: "simpleObjectParser h (objectShape h fs) input = Inr shaped"
      and rs: "list_all2 (\<lambda>p r. p input = Inr r) (conditionalParsers h fs) rs"
    have "P input = Inr (JObject (foldl assign (assign [] shaped) rs))"
      using combinedParser_returns [of "simpleObjectParser h (objectShape h fs)" input shaped "conditionalParsers h fs" rs] s rs
      by (simp add: eq)
    then show "\<exists>result. P input = Inr (JObject result)
               \<and> result = foldl assign (assign [] shaped) rs
               \<and> (\<forall>k. (\<forall>r \<in> set rs. k \<notin> propertyNames r)
                      \<longrightarrow> getProperty (JObject result) k = getProperty shaped k)
               \<and> (\<forall>k j. j < length rs \<and> k \<in> propertyNames (rs ! j)
                        \<and> (\<forall>i. j < i \<and> i < length rs \<longrightarrow> k \<notin> propertyNames (rs ! i))
                      \<longrightarrow> getProperty (JObject result) k = getProperty (rs ! j) k)"
      using merged_absent merged_last by blast
  qed
  have shape: "distinct (map key fs) \<longrightarrow>
       objectShape h fs
         = map (\<lambda>f. (key f, fparser f)) (filter (\<lambda>f. \<not> isConditional h (key f)) fs)"
    by (simp add: objectShape_distinct)
  from shape order first rest show ?thesis by blast
qed

theorem combinedParser_merges_conditionals_witness:
  "createProjectionParser sample sampleFields = Some (the (createProjectionParser sample sampleFields))
   \<and> \<not> isArray sampleInput
   \<and> (\<exists>result. the (createProjectionParser sample sampleFields) sampleInput = Inr (JObject result)
        \<and> getProperty (JObject result) ''kind'' = Some (JString ''B''))"
proof -
  let ?P = "the (createProjectionParser sample sampleFields)"
  let ?rs = "[JObject [(''kind'', JString ''A''), (''name'', JString ''from A'')],
              JObject [(''kind'', JString ''B'')]]"
  have ex: "createProjectionParser sample sampleFields = Some ?P" by (rule sample_exists)
  have obj: "\<not> isArray sampleInput" by (simp add: sampleInput_def)
  have outs: "list_all2 (\<lambda>p r. p sampleInput = Inr r) (conditionalParsers sample sampleFields) ?rs"
    by (simp add: sample_conditionalParsers branchA_def branchB_def)
  have names: "''kind'' \<in> propertyNames (?rs ! 1)"
    by (simp add: propertyNames_def)
  from combinedParser_merges_conditionals [OF ex obj] sample_shaped outs
  obtain result where r: "?P sampleInput = Inr (JObject result)"
    and last: "\<forall>k j. j < length ?rs \<and> k \<in> propertyNames (?rs ! j)
                 \<and> (\<forall>i. j < i \<and> i < length ?rs \<longrightarrow> k \<notin> propertyNames (?rs ! i))
               \<longrightarrow> getProperty (JObject result) k = getProperty (?rs ! j) k"
    by blast
  have "getProperty (JObject result) ''kind'' = getProperty (?rs ! 1) ''kind''"
    using last names by (intro last [rule_format]) auto
  then have "getProperty (JObject result) ''kind'' = Some (JString ''B'')"
    by (simp add: getProperty_def)
  with ex obj r show ?thesis by blast
qed

text \<open>
  C9. The object-shape parser runs first and every conditional output is assigned over
  the accumulated result. So when the object parser's output has a property (a key
  produced as a non-conditional projected field) that a conditional field's output has
  too, the final result holds the value of the last conditional output naming it, in place
  of the non-conditional field's parsed value.
\<close>

theorem conditional_overwrites_ordinary_field:
  assumes P: "createProjectionParser h fs = Some P"
    and input: "\<not> isArray input"
    and shaped: "simpleObjectParser h (objectShape h fs) input = Inr shaped"
    and outs: "list_all2 (\<lambda>p r. p input = Inr r) (conditionalParsers h fs) rs"
    and ordinary: "k \<in> propertyNames shaped"
    and j: "j < length rs" "k \<in> propertyNames (rs ! j)"
    and last: "\<forall>i. j < i \<and> i < length rs \<longrightarrow> k \<notin> propertyNames (rs ! i)"
  shows "\<exists>result. P input = Inr (JObject result)
           \<and> getProperty (JObject result) k = getProperty (rs ! j) k
           \<and> (getProperty (rs ! j) k \<noteq> getProperty shaped k
                \<longrightarrow> getProperty (JObject result) k \<noteq> getProperty shaped k)"
proof -
  have "P input = combinedParser (simpleObjectParser h (objectShape h fs) # conditionalParsers h fs) input"
    using projectionParser_object [OF P input] by (simp add: combinedParsers_def)
  then have "P input = Inr (JObject (foldl assign (assign [] shaped) rs))"
    using combinedParser_returns [of "simpleObjectParser h (objectShape h fs)" input shaped
            "conditionalParsers h fs" rs] shaped outs
    by simp
  moreover have "getProperty (JObject (foldl assign (assign [] shaped) rs)) k = getProperty (rs ! j) k"
    using j last by (rule merged_last)
  ultimately show ?thesis by simp
qed

theorem conditional_overwrites_ordinary_field_witness:
  "createProjectionParser sample sampleFields = Some (the (createProjectionParser sample sampleFields))
   \<and> \<not> isArray sampleInput
   \<and> simpleObjectParser sample (objectShape sample sampleFields) sampleInput
        = Inr (JObject [(''name'', JString ''raw'')])
   \<and> ''name'' \<in> propertyNames (JObject [(''name'', JString ''raw'')])
   \<and> (\<exists>result. the (createProjectionParser sample sampleFields) sampleInput = Inr (JObject result)
        \<and> getProperty (JObject result) ''name'' = Some (JString ''from A''))"
proof -
  let ?P = "the (createProjectionParser sample sampleFields)"
  let ?rs = "[JObject [(''kind'', JString ''A''), (''name'', JString ''from A'')],
              JObject [(''kind'', JString ''B'')]]"
  have ex: "createProjectionParser sample sampleFields = Some ?P" by (rule sample_exists)
  have obj: "\<not> isArray sampleInput" by (simp add: sampleInput_def)
  have outs: "list_all2 (\<lambda>p r. p sampleInput = Inr r) (conditionalParsers sample sampleFields) ?rs"
    by (simp add: sample_conditionalParsers branchA_def branchB_def)
  have ordinary: "''name'' \<in> propertyNames (JObject [(''name'', JString ''raw'')])"
    by (simp add: propertyNames_def)
  have j: "0 < length ?rs" "''name'' \<in> propertyNames (?rs ! 0)"
    by (simp_all add: propertyNames_def)
  have last: "\<forall>i. 0 < i \<and> i < length ?rs \<longrightarrow> ''name'' \<notin> propertyNames (?rs ! i)"
    by (auto simp: propertyNames_def less_Suc_eq)
  from conditional_overwrites_ordinary_field [OF ex obj sample_shaped outs ordinary j last]
  obtain result where "?P sampleInput = Inr (JObject result)"
    and "getProperty (JObject result) ''name'' = getProperty (?rs ! 0) ''name''"
    by blast
  then have "?P sampleInput = Inr (JObject result)
      \<and> getProperty (JObject result) ''name'' = Some (JString ''from A'')"
    by (simp add: getProperty_def)
  with ex obj sample_shaped ordinary show ?thesis by blast
qed

section \<open>Arrays and single objects\<close>

text \<open>The array parser of the spec on a list: the results in order, or the first failure.\<close>

lemma parseEach_returns:
  "list_all2 (\<lambda>x y. p x = Inr y) xs ys \<Longrightarrow> parseEach p xs = Inr ys"
  by (induction xs ys rule: list_all2_induct) auto

lemma parseEach_throws:
  "list_all2 (\<lambda>x y. p x = Inr y) xs ys \<Longrightarrow> p x = Inl e \<Longrightarrow> parseEach p (xs @ x # zs) = Inl e"
  by (induction xs ys rule: list_all2_induct) auto

lemma sample_combined:
  "combinedParser (combinedParsers sample sampleFields) sampleInput
     = Inr (JObject [(''name'', JString ''from A''), (''kind'', JString ''B'')])"
  using sample_shaped
  by (simp add: combinedParsers_def sample_conditionalParsers combinedParser_def assign_def
        branchA_def branchB_def sampleInput_def)

lemma sample_shaped_empty:
  "simpleObjectParser sample (objectShape sample sampleFields) (JObject []) = Inr (JObject [])"
  by (simp add: objectShape_def normalFields_def fromEntries_def sampleFields_def sample_def)

lemma sample_combined_empty:
  "combinedParser (combinedParsers sample sampleFields) (JObject [])
     = Inr (JObject [(''kind'', JString ''B''), (''name'', JString ''from A'')])"
  using sample_shaped_empty
  by (simp add: combinedParsers_def sample_conditionalParsers combinedParser_def assign_def
        branchA_def branchB_def)

text \<open>
  C2. For every list of normalized fields of which at least one has a parser, the
  projection compiler builds a parser \<open>P\<close>. On every raw value that is no array, \<open>P\<close>
  is the combined object logic applied to it directly. On a list, \<open>P\<close> is the array
  parser over the combined object logic; with the array parser as the spec describes it,
  \<open>P [o1..on] = [objectLogic o1, ..., objectLogic on]\<close>, of equal length and in the
  same order, when the object logic returns on each element, and the first failure
  otherwise.
\<close>

theorem projectionParser_array_or_object:
  assumes "list_ex (\<lambda>f. fparser f \<noteq> None) fs"
  shows "\<exists>P. createProjectionParser h fs = Some P
           \<and> (\<forall>input. \<not> isArray input \<longrightarrow> P input = combinedParser (combinedParsers h fs) input)
           \<and> (\<forall>inputs. P (JArray inputs)
                  = simpleArrayParser h (combinedParser (combinedParsers h fs)) (JArray inputs))
           \<and> (simpleArrayParser h = simpleArrayParser_spec \<longrightarrow>
                (\<forall>inputs results.
                   list_all2 (\<lambda>input result. combinedParser (combinedParsers h fs) input = Inr result)
                     inputs results
                   \<longrightarrow> P (JArray inputs) = Inr (JArray results) \<and> length results = length inputs)
              \<and> (\<forall>inputs results input e rest.
                   list_all2 (\<lambda>input result. combinedParser (combinedParsers h fs) input = Inr result)
                     inputs results
                   \<and> combinedParser (combinedParsers h fs) input = Inl e
                   \<longrightarrow> P (JArray (inputs @ input # rest)) = Inl e))"
proof -
  let ?P = "\<lambda>input. if \<not> isArray input then combinedParser (combinedParsers h fs) input
                     else simpleArrayParser h (combinedParser (combinedParsers h fs)) input"
  have "createProjectionParser h fs = Some ?P"
    using assms by (simp add: createProjectionParser_def)
  moreover have "\<forall>input. \<not> isArray input \<longrightarrow> ?P input = combinedParser (combinedParsers h fs) input"
    by simp
  moreover have "\<forall>inputs. ?P (JArray inputs)
                  = simpleArrayParser h (combinedParser (combinedParsers h fs)) (JArray inputs)"
    by simp
  moreover have "simpleArrayParser h = simpleArrayParser_spec \<longrightarrow>
                (\<forall>inputs results.
                   list_all2 (\<lambda>input result. combinedParser (combinedParsers h fs) input = Inr result)
                     inputs results
                   \<longrightarrow> ?P (JArray inputs) = Inr (JArray results) \<and> length results = length inputs)
              \<and> (\<forall>inputs results input e rest.
                   list_all2 (\<lambda>input result. combinedParser (combinedParsers h fs) input = Inr result)
                     inputs results
                   \<and> combinedParser (combinedParsers h fs) input = Inl e
                   \<longrightarrow> ?P (JArray (inputs @ input # rest)) = Inl e)"
    by (auto simp: parseEach_returns parseEach_throws dest: list_all2_lengthD)
  ultimately show ?thesis by blast
qed

theorem projectionParser_array_or_object_witness:
  "list_ex (\<lambda>f. fparser f \<noteq> None) sampleFields
   \<and> simpleArrayParser sample = simpleArrayParser_spec
   \<and> (\<exists>P. createProjectionParser sample sampleFields = Some P
         \<and> P sampleInput = Inr (JObject [(''name'', JString ''from A''), (''kind'', JString ''B'')])
         \<and> P (JArray [sampleInput, JObject []])
             = Inr (JArray [JObject [(''name'', JString ''from A''), (''kind'', JString ''B'')],
                            JObject [(''kind'', JString ''B''), (''name'', JString ''from A'')]]))"
proof -
  have some: "list_ex (\<lambda>f. fparser f \<noteq> None) sampleFields"
    by (simp add: sampleFields_def)
  have spec: "simpleArrayParser sample = simpleArrayParser_spec"
    by (simp add: sample_def)
  have obj: "\<not> isArray sampleInput" by (simp add: sampleInput_def)
  have each: "list_all2 (\<lambda>input result. combinedParser (combinedParsers sample sampleFields) input = Inr result)
                [sampleInput, JObject []]
                [JObject [(''name'', JString ''from A''), (''kind'', JString ''B'')],
                 JObject [(''kind'', JString ''B''), (''name'', JString ''from A'')]]"
    by (simp add: sample_combined sample_combined_empty)
  from projectionParser_array_or_object [OF some, of sample]
  obtain P where P: "createProjectionParser sample sampleFields = Some P"
    and single: "\<forall>input. \<not> isArray input
                   \<longrightarrow> P input = combinedParser (combinedParsers sample sampleFields) input"
    and many: "simpleArrayParser sample = simpleArrayParser_spec \<longrightarrow>
                (\<forall>inputs results.
                   list_all2 (\<lambda>input result. combinedParser (combinedParsers sample sampleFields) input = Inr result)
                     inputs results
                   \<longrightarrow> P (JArray inputs) = Inr (JArray results) \<and> length results = length inputs)"
    by blast
  have one: "P sampleInput = Inr (JObject [(''name'', JString ''from A''), (''kind'', JString ''B'')])"
    using single obj by (simp add: sample_combined)
  have two: "P (JArray [sampleInput, JObject []])
             = Inr (JArray [JObject [(''name'', JString ''from A''), (''kind'', JString ''B'')],
                            JObject [(''kind'', JString ''B''), (''name'', JString ''from A'')]])"
    using many [rule_format, OF spec each] by simp
  from some spec P one two show ?thesis by blast
qed

section \<open>Compiling a projection map\<close>

text \<open>
  What \<open>normalizeFields\<close> keeps: one field per entry that is not \<^verbatim>\<open>false\<close>, under the
  entry's key and in the order of the entries.
\<close>

lemma normalizeProjectionField_key:
  "normalizeProjectionField h k v = Inr (Some f) \<Longrightarrow> key f = k"
  by (cases v) (auto simp: Let_def split: if_splits sum.splits)

lemma normalizeProjectionField_null:
  "normalizeProjectionField h k v = Inr None \<longleftrightarrow> v = BooleanValue False"
  by (cases v) (auto simp: Let_def split: if_splits sum.splits)

lemma normalizeFields_entries:
  "normalizeFields h pm = Inr fs \<Longrightarrow>
   list_all2 (\<lambda>(k, v) f. normalizeProjectionField h k v = Inr (Some f) \<and> key f = k)
     (filter (\<lambda>(k, v). v \<noteq> BooleanValue False) pm) fs"
proof (induction pm arbitrary: fs)
  case Nil
  then show ?case by simp
next
  case (Cons e pm)
  obtain k v where e: "e = (k, v)" by (cases e)
  from Cons.prems e obtain r fs' where r: "normalizeProjectionField h k v = Inr r"
    and fs': "normalizeFields h pm = Inr fs'"
    and fs: "fs = (case r of None \<Rightarrow> fs' | Some f \<Rightarrow> f # fs')"
    by (auto split: sum.splits)
  have IH: "list_all2 (\<lambda>(k, v) f. normalizeProjectionField h k v = Inr (Some f) \<and> key f = k)
     (filter (\<lambda>(k, v). v \<noteq> BooleanValue False) pm) fs'"
    using Cons.IH fs' by simp
  show ?case
  proof (cases r)
    case None
    then have "v = BooleanValue False" using r normalizeProjectionField_null by blast
    with IH e fs None show ?thesis by simp
  next
    case (Some f)
    then have "v \<noteq> BooleanValue False" using r normalizeProjectionField_null [of h k v] by auto
    moreover have "key f = k" using r Some normalizeProjectionField_key by blast
    ultimately show ?thesis using IH e fs Some r by simp
  qed
qed

lemma entries_keys:
  "list_all2 (\<lambda>(k, v) f. normalizeProjectionField h k v = Inr (Some f) \<and> key f = k) es fs
   \<Longrightarrow> map key fs = map fst es"
  by (induction es fs rule: list_all2_induct) auto

text \<open>A joined string contains each of the joined pieces.\<close>

lemma sublist_join:
  "x \<in> set xs \<Longrightarrow> sublist x (join sep xs)"
proof (induction sep xs rule: join.induct)
  case (1 sep)
  then show ?case by simp
next
  case (2 sep y)
  then show ?case by simp
next
  case (3 sep y z zs)
  show ?case
  proof (cases "x = y")
    case True
    then show ?thesis by simp
  next
    case False
    then have "sublist x (join sep (z # zs))" using 3 by simp
    then obtain ps ss where "join sep (z # zs) = ps @ x @ ss" by (auto simp: sublist_def)
    then have "join sep (y # z # zs) = (y @ sep @ ps) @ x @ ss" by simp
    then show ?thesis unfolding sublist_def by blast
  qed
qed

text \<open>The sample maps normalized.\<close>

lemma strictMap_fields:
  "normalizeFields sample strictMap
     = Inr [\<lparr> key = ''name'', fquery = ''name'', fparser = None \<rparr>,
            \<lparr> key = ''price'', fquery = ''price'', fparser = Some stringParser \<rparr>,
            \<lparr> key = ''msrp'', fquery = ''msrp'', fparser = None \<rparr>]"
  by (simp add: strictMap_def sample_def)

lemma validatedMap_fields:
  "normalizeFields sample validatedMap
     = Inr [\<lparr> key = ''name'', fquery = ''name'', fparser = Some stringParser \<rparr>,
            \<lparr> key = ''TITLE'', fquery = dq @ ''TITLE'' @ dq @ '': title'', fparser = Some stringParser \<rparr>]"
  by (simp add: validatedMap_def sample_def)

lemma plainMap_fields:
  "normalizeFields sample plainMap
     = Inr [\<lparr> key = ''name'', fquery = ''name'', fparser = None \<rparr>,
            \<lparr> key = ''SLUG'', fquery = dq @ ''SLUG'' @ dq @ '': slug.current'', fparser = None \<rparr>]"
  by (simp add: plainMap_def sample_def)

text \<open>
  C4. On a builder whose options enable \<open>validationRequired\<close>, and for a projection map
  whose entries all normalize: when at least one normalized field has no parser,
  \<open>project\<close> throws the \<^verbatim>\<open>TypeError\<close> and returns no node, and the message lists, quoted,
  the key of every field without a parser, not only of the first; when every normalized
  field has a parser, \<open>project\<close> returns the chained node.
\<close>

theorem project_validationRequired:
  assumes strict: "validationRequired (options this)"
    and pm: "retrieveProjectionMap h this arg = Inr pm"
    and fs: "normalizeFields h pm = Inr fs"
  shows "(list_ex (\<lambda>f. fparser f = None) fs \<longrightarrow>
            project h this arg
              = Inl (TypeError (missingValidationMessage (filter (\<lambda>f. fparser f = None) fs)))
          \<and> (\<forall>f \<in> set fs. fparser f = None \<longrightarrow>
                sublist (dq @ key f @ dq)
                  (missingValidationMessage (filter (\<lambda>f. fparser f = None) fs))))
       \<and> (list_all (\<lambda>f. fparser f \<noteq> None) fs \<longrightarrow>
            project h this arg
              = Inr (chain h this (newQuery (indentation_of h this) (map fquery fs))
                       (createProjectionParser h fs)))"
proof (intro conjI impI ballI)
  assume "list_ex (\<lambda>f. fparser f = None) fs"
  then have "filter (\<lambda>f. fparser f = None) fs \<noteq> []"
    by (simp add: list_ex_iff filter_empty_conv)
  then show "project h this arg
              = Inl (TypeError (missingValidationMessage (filter (\<lambda>f. fparser f = None) fs)))"
    using strict pm fs by (simp add: project_def)
next
  fix f
  assume "f \<in> set fs" and "fparser f = None"
  then have "dq @ key f @ dq \<in> set (map (\<lambda>f. dq @ key f @ dq) (filter (\<lambda>f. fparser f = None) fs))"
    by auto
  then have "sublist (dq @ key f @ dq)
               (join '','' (map (\<lambda>f. dq @ key f @ dq) (filter (\<lambda>f. fparser f = None) fs)))"
    by (rule sublist_join)
  then obtain ps ss where
    "join '','' (map (\<lambda>f. dq @ key f @ dq) (filter (\<lambda>f. fparser f = None) fs)) = ps @ (dq @ key f @ dq) @ ss"
    by (auto simp: sublist_def)
  then have "\<exists>ps'. missingValidationMessage (filter (\<lambda>f. fparser f = None) fs) = ps' @ (dq @ key f @ dq) @ ss"
    unfolding missingValidationMessage_def by (metis append.assoc)
  then show "sublist (dq @ key f @ dq) (missingValidationMessage (filter (\<lambda>f. fparser f = None) fs))"
    unfolding sublist_def by blast
next
  assume "list_all (\<lambda>f. fparser f \<noteq> None) fs"
  then have "filter (\<lambda>f. fparser f = None) fs = []"
    by (simp add: list_all_iff filter_empty_conv)
  then show "project h this arg
              = Inr (chain h this (newQuery (indentation_of h this) (map fquery fs))
                       (createProjectionParser h fs))"
    using pm fs by (simp add: project_def)
qed

theorem project_validationRequired_witness:
  "validationRequired (options strictNode)
   \<and> retrieveProjectionMap sample strictNode (MapArg strictMap) = Inr strictMap
   \<and> project sample strictNode (MapArg strictMap)
       = Inl (TypeError (missingValidationMessage
                [\<lparr> key = ''name'', fquery = ''name'', fparser = None \<rparr>,
                 \<lparr> key = ''msrp'', fquery = ''msrp'', fparser = None \<rparr>]))
   \<and> sublist (dq @ ''name'' @ dq)
        (missingValidationMessage
                [\<lparr> key = ''name'', fquery = ''name'', fparser = None \<rparr>,
                 \<lparr> key = ''msrp'', fquery = ''msrp'', fparser = None \<rparr>])
   \<and> sublist (dq @ ''msrp'' @ dq)
        (missingValidationMessage
                [\<lparr> key = ''name'', fquery = ''name'', fparser = None \<rparr>,
                 \<lparr> key = ''msrp'', fquery = ''msrp'', fparser = None \<rparr>])
   \<and> (\<exists>node. project sample strictNode (MapArg validatedMap) = Inr node
         \<and> query node = ''* { name, '' @ dq @ ''TITLE'' @ dq @ '': title }'')"
proof -
  have strict: "validationRequired (options strictNode)" by (simp add: strictNode_def)
  have pm: "retrieveProjectionMap sample strictNode (MapArg strictMap) = Inr strictMap" by simp
  have pm': "retrieveProjectionMap sample strictNode (MapArg validatedMap) = Inr validatedMap" by simp
  note a = project_validationRequired [OF strict pm strictMap_fields]
  note b = project_validationRequired [OF strict pm' validatedMap_fields]
  have fails: "project sample strictNode (MapArg strictMap)
       = Inl (TypeError (missingValidationMessage
                [\<lparr> key = ''name'', fquery = ''name'', fparser = None \<rparr>,
                 \<lparr> key = ''msrp'', fquery = ''msrp'', fparser = None \<rparr>]))"
    using a by simp
  have names: "sublist (dq @ ''name'' @ dq)
        (missingValidationMessage
                [\<lparr> key = ''name'', fquery = ''name'', fparser = None \<rparr>,
                 \<lparr> key = ''msrp'', fquery = ''msrp'', fparser = None \<rparr>])
   \<and> sublist (dq @ ''msrp'' @ dq)
        (missingValidationMessage
                [\<lparr> key = ''name'', fquery = ''name'', fparser = None \<rparr>,
                 \<lparr> key = ''msrp'', fquery = ''msrp'', fparser = None \<rparr>])"
    using a by simp
  have "project sample strictNode (MapArg validatedMap)
          = Inr (chain sample strictNode
                  (newQuery (indentation_of sample strictNode)
                     [''name'', dq @ ''TITLE'' @ dq @ '': title''])
                  (createProjectionParser sample
                     [\<lparr> key = ''name'', fquery = ''name'', fparser = Some stringParser \<rparr>,
                      \<lparr> key = ''TITLE'', fquery = dq @ ''TITLE'' @ dq @ '': title'', fparser = Some stringParser \<rparr>]))"
    using b by simp
  then have "\<exists>node. project sample strictNode (MapArg validatedMap) = Inr node
         \<and> query node = ''* { name, '' @ dq @ ''TITLE'' @ dq @ '': title }''"
    by (simp add: chain_def newQuery_def sample_def strictNode_def dq_def)
  with strict pm fails names show ?thesis by blast
qed

text \<open>Without any parser among the fields there is no projection parser.\<close>

lemma createProjectionParser_null:
  "list_all (\<lambda>f. fparser f = None) fs \<Longrightarrow> createProjectionParser h fs = None"
  by (simp add: createProjectionParser_def list_all_iff list_ex_iff)

text \<open>
  C5 (as amended). For every projection map whose entries all normalize to fields
  without a parser, on a builder whose options do not enable \<open>validationRequired\<close>, or
  when no field remains, \<open>createProjectionParser\<close> returns \<^verbatim>\<open>null\<close> and \<open>project\<close>
  still returns the node chained with the brace block and a \<^verbatim>\<open>null\<close> parser. The empty
  map compiles, under either setting, to the brace block with no field and a \<^verbatim>\<open>null\<close>
  parser.
\<close>

theorem project_no_parser:
  assumes pm: "retrieveProjectionMap h this arg = Inr pm"
    and fs: "normalizeFields h pm = Inr fs"
    and none: "list_all (\<lambda>f. fparser f = None) fs"
    and lax: "\<not> validationRequired (options this) \<or> fs = []"
  shows "createProjectionParser h fs = None
       \<and> project h this arg
           = Inr (chain h this (newQuery (indentation_of h this) (map fquery fs)) None)
       \<and> project h this (MapArg [])
           = Inr (chain h this
                   ('' {'' @ newLine (indentation_of h this) @ space (indentation_of h this)
                      @ newLine (indentation_of h this) @ ''}'') None)"
proof -
  have null: "createProjectionParser h fs = None"
    using none by (rule createProjectionParser_null)
  have "\<not> (validationRequired (options this) \<and> length (filter (\<lambda>f. fparser f = None) fs) \<noteq> 0)"
    using lax by auto
  then have "project h this arg
           = Inr (chain h this (newQuery (indentation_of h this) (map fquery fs)) None)"
    using pm fs null by (simp add: project_def Let_def)
  moreover have "project h this (MapArg [])
           = Inr (chain h this
                   ('' {'' @ newLine (indentation_of h this) @ space (indentation_of h this)
                      @ newLine (indentation_of h this) @ ''}'') None)"
    by (simp add: project_def createProjectionParser_def newQuery_def)
  ultimately show ?thesis using null by simp
qed

theorem project_no_parser_witness:
  "retrieveProjectionMap sample sampleNode (MapArg plainMap) = Inr plainMap
   \<and> \<not> validationRequired (options sampleNode)
   \<and> (\<exists>node. project sample sampleNode (MapArg plainMap) = Inr node
        \<and> query node = ''* { name, '' @ dq @ ''SLUG'' @ dq @ '': slug.current }''
        \<and> parser node = None)
   \<and> (\<exists>node. project sample strictNode (MapArg []) = Inr node
        \<and> query node = ''* {  }'' \<and> parser node = None)"
proof -
  have pm: "retrieveProjectionMap sample sampleNode (MapArg plainMap) = Inr plainMap" by simp
  have none: "list_all (\<lambda>f. fparser f = None)
                [\<lparr> key = ''name'', fquery = ''name'', fparser = None \<rparr>,
                 \<lparr> key = ''SLUG'', fquery = dq @ ''SLUG'' @ dq @ '': slug.current'', fparser = None \<rparr>]"
    by simp
  have lax: "\<not> validationRequired (options sampleNode)" by (simp add: sampleNode_def)
  then have lax': "\<not> validationRequired (options sampleNode)
      \<or> [\<lparr> key = ''name'', fquery = ''name'', fparser = None \<rparr>,
          \<lparr> key = ''SLUG'', fquery = dq @ ''SLUG'' @ dq @ '': slug.current'', fparser = None \<rparr>] = []"
    by simp
  note a = project_no_parser [OF pm plainMap_fields none lax']
  have pm0: "retrieveProjectionMap sample strictNode (MapArg []) = Inr []" by simp
  have fs0: "normalizeFields sample [] = Inr []" by simp
  have none0: "list_all (\<lambda>f. fparser f = None) ([] :: NormalizedProjectionField list)" by simp
  have lax0: "\<not> validationRequired (options strictNode) \<or> ([] :: NormalizedProjectionField list) = []" by simp
  note b = project_no_parser [OF pm0 fs0 none0 lax0]
  have "project sample sampleNode (MapArg plainMap)
          = Inr (chain sample sampleNode
                  (newQuery (indentation_of sample sampleNode)
                     [''name'', dq @ ''SLUG'' @ dq @ '': slug.current'']) None)"
    using a [THEN conjunct2, THEN conjunct1] by simp
  then have "\<exists>node. project sample sampleNode (MapArg plainMap) = Inr node
        \<and> query node = ''* { name, '' @ dq @ ''SLUG'' @ dq @ '': slug.current }''
        \<and> parser node = None"
    by (simp add: chain_def newQuery_def sample_def sampleNode_def dq_def)
  moreover have "\<exists>node. project sample strictNode (MapArg []) = Inr node
        \<and> query node = ''* {  }'' \<and> parser node = None"
    using b [THEN conjunct2, THEN conjunct2]
    by (simp add: chain_def sample_def strictNode_def)
  ultimately show ?thesis using pm lax by blast
qed

text \<open>
  C5 as stated, for every projection map with no parser, fails on a builder that enables
  \<open>validationRequired\<close>: the map \<^verbatim>\<open>{name: true}\<close> normalizes to one field without a parser,
  and \<open>project\<close> throws instead of compiling the query.
\<close>

theorem validationRequired_rejects_plain_map_counterexample:
  "normalizeFields sample [(''name'', BooleanValue True)]
     = Inr [\<lparr> key = ''name'', fquery = ''name'', fparser = None \<rparr>]
   \<and> validationRequired (options strictNode)
   \<and> project sample strictNode (MapArg [(''name'', BooleanValue True)])
       = Inl (TypeError (missingValidationMessage [\<lparr> key = ''name'', fquery = ''name'', fparser = None \<rparr>]))"
  by (simp add: project_def strictNode_def)

text \<open>
  C6. Whenever \<open>project\<close> returns a node for a projection map, the brace block appended
  to the query joins exactly one query per map entry whose normalized result is not
  \<^verbatim>\<open>null\<close>; these are exactly the entries whose configuration is not \<^verbatim>\<open>false\<close>, and the
  queries stand in the iteration order of the map, each under its entry's key.
\<close>

theorem project_field_count_and_order:
  assumes node: "project h this arg = Inr node"
    and pm: "retrieveProjectionMap h this arg = Inr pm"
  shows "\<exists>fs. normalizeFields h pm = Inr fs
           \<and> list_all2 (\<lambda>(k, v) f. normalizeProjectionField h k v = Inr (Some f) \<and> key f = k)
                (filter (\<lambda>(k, v). v \<noteq> BooleanValue False) pm) fs
           \<and> (\<forall>(k, v) \<in> set pm. normalizeProjectionField h k v = Inr None \<longleftrightarrow> v = BooleanValue False)
           \<and> length (map fquery fs) = length (filter (\<lambda>(k, v). v \<noteq> BooleanValue False) pm)
           \<and> map key fs = map fst (filter (\<lambda>(k, v). v \<noteq> BooleanValue False) pm)
           \<and> query node
               = query this @ '' {'' @ newLine (indentation_of h this) @ space (indentation_of h this)
                   @ join ('','' @ newLine (indentation_of h this) @ space (indentation_of h this))
                       (map fquery fs)
                   @ newLine (indentation_of h this) @ ''}''"
proof -
  from node pm obtain fs where fs: "normalizeFields h pm = Inr fs"
    by (auto simp: project_def split: sum.splits)
  have entries: "list_all2 (\<lambda>(k, v) f. normalizeProjectionField h k v = Inr (Some f) \<and> key f = k)
                (filter (\<lambda>(k, v). v \<noteq> BooleanValue False) pm) fs"
    using fs by (rule normalizeFields_entries)
  have len: "length (map fquery fs) = length (filter (\<lambda>(k, v). v \<noteq> BooleanValue False) pm)"
    using entries by (simp add: list_all2_lengthD)
  have keys: "map key fs = map fst (filter (\<lambda>(k, v). v \<noteq> BooleanValue False) pm)"
    using entries by (rule entries_keys)
  have null: "\<forall>(k, v) \<in> set pm. normalizeProjectionField h k v = Inr None \<longleftrightarrow> v = BooleanValue False"
    by (auto simp: normalizeProjectionField_null)
  have "node = chain h this (newQuery (indentation_of h this) (map fquery fs)) (createProjectionParser h fs)"
    using node pm fs by (auto simp: project_def Let_def split: if_splits)
  then have "query node
               = query this @ '' {'' @ newLine (indentation_of h this) @ space (indentation_of h this)
                   @ join ('','' @ newLine (indentation_of h this) @ space (indentation_of h this))
                       (map fquery fs)
                   @ newLine (indentation_of h this) @ ''}''"
    by (simp add: chain_def newQuery_def)
  with fs entries null len keys show ?thesis by blast
qed

theorem project_field_count_and_order_witness:
  "retrieveProjectionMap sample sampleNode (MapArg plainMap) = Inr plainMap
   \<and> (\<exists>node. project sample sampleNode (MapArg plainMap) = Inr node
        \<and> query node = ''* { name, '' @ dq @ ''SLUG'' @ dq @ '': slug.current }'')
   \<and> length (filter (\<lambda>(k, v). v \<noteq> BooleanValue False) plainMap) = 2"
proof -
  have pm: "retrieveProjectionMap sample sampleNode (MapArg plainMap) = Inr plainMap" by simp
  have node: "project sample sampleNode (MapArg plainMap)
     = Inr (chain sample sampleNode
             (newQuery (indentation_of sample sampleNode)
                [''name'', dq @ ''SLUG'' @ dq @ '': slug.current'']) None)"
    by (simp add: project_def plainMap_fields createProjectionParser_def sampleNode_def)
  from project_field_count_and_order [OF node pm] plainMap_fields
  have "query (chain sample sampleNode
             (newQuery (indentation_of sample sampleNode)
                [''name'', dq @ ''SLUG'' @ dq @ '': slug.current'']) None)
        = query sampleNode @ '' {'' @ newLine (indentation_of sample sampleNode)
            @ space (indentation_of sample sampleNode)
            @ join ('','' @ newLine (indentation_of sample sampleNode) @ space (indentation_of sample sampleNode))
                [''name'', dq @ ''SLUG'' @ dq @ '': slug.current'']
            @ newLine (indentation_of sample sampleNode) @ ''}''"
    by auto
  then have "query (chain sample sampleNode
             (newQuery (indentation_of sample sampleNode)
                [''name'', dq @ ''SLUG'' @ dq @ '': slug.current'']) None)
        = ''* { name, '' @ dq @ ''SLUG'' @ dq @ '': slug.current }''"
    by (simp add: sample_def sampleNode_def dq_def)
  with node have "\<exists>node. project sample sampleNode (MapArg plainMap) = Inr node
        \<and> query node = ''* { name, '' @ dq @ ''SLUG'' @ dq @ '': slug.current }''"
    by simp
  moreover have "length (filter (\<lambda>(k, v). v \<noteq> BooleanValue False) plainMap) = 2"
    by (simp add: plainMap_def)
  ultimately show ?thesis using pm by blast
qed

section \<open>The unexpected value\<close>



section \<open>chain\<close>



section \<open>The two versions of project\<close>




end
